theory Spec2Isabelle
  imports Main
begin

section \<open>The notebook driver of the Census trade query tool\<close>

text \<open>
  The repository's driver is the notebook \<^verbatim>\<open>code/Census_API_Program_NB.ipynb\<close>. Its cells
  call the helper module \<^verbatim>\<open>trade_api_functions\<close> (imported as \<^verbatim>\<open>taf\<close>), whose source is
  not with the notebook. The cells are embedded as they are written; what a helper
  returns is a parameter of the embedding, and what a helper is called with is recorded.
\<close>

subsection \<open>Cell 11: the year prompts and the re-prompt loop\<close>

text \<open>
  \<^verbatim>\<open>
  print("What time period would you like to pull data for?")
  start_year = int(taf.valid_year_input("Enter the 4 digit year you would like to start from (e.g. 2010): "))
  end_year = int(taf.valid_year_input("Enter the 4 digit year you would like to end at (e.g. 2020): ")) + 1

  # Ensure start_year is not greater than end_year
  while int(start_year) > int(end_year):
      print("The start year cannot be greater than the end year. Please enter the years again.")
      start_year = taf.valid_year_input("Enter the 4 digit year you would like to start from (e.g. 2010): ")
      end_year = taf.valid_year_input("Enter the 4 digit year you would like to end at (e.g. 2020): ")
  \<close>

  The type \<open>'y\<close> is whatever \<^verbatim>\<open>valid_year_input\<close> returns, and \<open>to_int\<close> is Python's
  \<^verbatim>\<open>int(...)\<close> on such a value (\<open>None\<close> where it raises \<^verbatim>\<open>ValueError\<close>). A year variable
  of the cell holds either an integer the cell computed (\<open>PyInt\<close>) or a value of the
  prompt as it came back (\<open>Prompted\<close>); \<open>py_int\<close> is \<^verbatim>\<open>int(...)\<close> on such a variable.
\<close>

datatype error = ValueError | NoMoreInput

datatype 'y pyval = PyInt int | Prompted 'y

record 'y years =
  start_year :: "'y pyval"
  end_year :: "'y pyval"

definition py_int :: "('y \<Rightarrow> int option) \<Rightarrow> 'y pyval \<Rightarrow> error + int" where
  "py_int to_int v =
     (case v of
        PyInt n \<Rightarrow> Inr n
      | Prompted y \<Rightarrow> (case to_int y of None \<Rightarrow> Inl ValueError | Some n \<Rightarrow> Inr n))"

definition time_period_msg :: string where
  "time_period_msg = ''What time period would you like to pull data for?''"

definition reprompt_msg :: string where
  "reprompt_msg =
     ''The start year cannot be greater than the end year. Please enter the years again.''"

text \<open>
  The user's answers are the list of values the successive calls of the prompt return.
  The loop threads the lines the cell has printed so far and the answers not yet read,
  and returns both with the two year variables. It stops with \<open>NoMoreInput\<close> when it has
  to prompt and no answer is left: the session then never reaches the retrieval.
\<close>

fun reprompt_loop ::
  "('y \<Rightarrow> int option) \<Rightarrow> 'y pyval \<Rightarrow> 'y pyval \<Rightarrow> string list \<Rightarrow> 'y list
     \<Rightarrow> string list \<times> (error + 'y years \<times> 'y list)" where
  "reprompt_loop to_int sy ey out answers =
     (case py_int to_int sy of
        Inl err \<Rightarrow> (out, Inl err)
      | Inr s \<Rightarrow>
         (case py_int to_int ey of
            Inl err \<Rightarrow> (out, Inl err)
          | Inr e \<Rightarrow>
             if s > e then
               (case answers of
                  a # b # rest \<Rightarrow>
                    reprompt_loop to_int (Prompted a) (Prompted b) (out @ [reprompt_msg]) rest
                | _ \<Rightarrow> (out @ [reprompt_msg], Inl NoMoreInput))
             else (out, Inr (\<lparr>start_year = sy, end_year = ey\<rparr>, answers))))"

declare reprompt_loop.simps [simp del]

definition cell_11 ::
  "('y \<Rightarrow> int option) \<Rightarrow> 'y list \<Rightarrow> string list \<times> (error + 'y years \<times> 'y list)" where
  "cell_11 to_int answers =
     (case answers of
        [] \<Rightarrow> ([time_period_msg], Inl NoMoreInput)
      | a # answers1 \<Rightarrow>
         (case to_int a of
            None \<Rightarrow> ([time_period_msg], Inl ValueError)
          | Some s \<Rightarrow>
             (case answers1 of
                [] \<Rightarrow> ([time_period_msg], Inl NoMoreInput)
              | b # rest \<Rightarrow>
                 (case to_int b of
                    None \<Rightarrow> ([time_period_msg], Inl ValueError)
                  | Some e \<Rightarrow>
                     reprompt_loop to_int (PyInt s) (PyInt (e + 1)) [time_period_msg] rest))))"

text \<open>
  Cell 15 hands the two variables to the retrieval:
  \<^verbatim>\<open>data = taf.make_call(base_url, parameters, start_year, end_year, imp_exp, ...)\<close>.
  \<open>make_call_bounds\<close> is the pair of bounds of that call, \<open>None\<close> when the session does
  not reach it.
\<close>

definition make_call_bounds :: "('y \<Rightarrow> int option) \<Rightarrow> 'y list \<Rightarrow> ('y pyval \<times> 'y pyval) option" where
  "make_call_bounds to_int answers =
     (case snd (cell_11 to_int answers) of
        Inl err \<Rightarrow> None
      | Inr (ys, rest) \<Rightarrow> Some (start_year ys, end_year ys))"

definition reprompted :: "('y \<Rightarrow> int option) \<Rightarrow> 'y list \<Rightarrow> bool" where
  "reprompted to_int answers = (reprompt_msg \<in> set (fst (cell_11 to_int answers)))"

text \<open>
  The periods a session retrieves, for a retrieval that enumerates \<open>periods s e\<close> when
  the integer values of its bounds are \<open>s\<close> and \<open>e\<close>. \<open>None\<close> when the session does not
  reach the call or a bound has no integer value.
\<close>

definition session_periods ::
  "(int \<Rightarrow> int \<Rightarrow> int list) \<Rightarrow> ('y \<Rightarrow> int option) \<Rightarrow> 'y list \<Rightarrow> int list option" where
  "session_periods periods to_int answers =
     (case make_call_bounds to_int answers of
        None \<Rightarrow> None
      | Some (sy, ey) \<Rightarrow>
         (case py_int to_int sy of
            Inl err \<Rightarrow> None
          | Inr s \<Rightarrow>
             (case py_int to_int ey of
                Inl err \<Rightarrow> None
              | Inr e \<Rightarrow> Some (periods s e))))"

subsection \<open>Cell 6: the base parameters and the API key\<close>

text \<open>
  \<^verbatim>\<open>
  parameters = taf.determine_base_params(trade_type)

  # Determine if there is a key and add it to the parameters
  if key:
      parameters['key'] = key
  \<close>

  \<^verbatim>\<open>determine_base_params\<close> is a helper of the missing module and stays a parameter. The
  key is what \<^verbatim>\<open>taf.get_key()\<close> handed back in cell 4: Python's \<^verbatim>\<open>None\<close> or a string; the test
  \<^verbatim>\<open>if key:\<close> is Python truthiness, false for \<^verbatim>\<open>None\<close> and for the empty string. No later
  cell assigns \<^verbatim>\<open>parameters\<close> or passes it to a helper before cell 15 hands it to
  \<^verbatim>\<open>make_call\<close>.
\<close>

definition cell_6 ::
  "('tt \<Rightarrow> (string \<rightharpoonup> string)) \<Rightarrow> 'tt \<Rightarrow> string option \<Rightarrow> (string \<rightharpoonup> string)" where
  "cell_6 determine_base_params trade_type key =
     (let parameters = determine_base_params trade_type in
      case key of
        None \<Rightarrow> parameters
      | Some k \<Rightarrow> if k \<noteq> [] then parameters(''key'' \<mapsto> k) else parameters)"

subsection \<open>Cell 17: cleaning and saving\<close>

text \<open>
  \<^verbatim>\<open>
  # create a directory to save the data
  save_dir = taf.save_directory()

  # Ask the user if they would like to clean the data before saving it
  cleaned = taf.prompt_yes_no("Would you like to clean the data before saving to a csv file? (Yes/No): ")
  if cleaned:
      cleaned_data = taf.clean_data(data, trade_type)
      taf.save_data(cleaned_data, trade_type, save_dir, commodity, cleaned=True)
  else:
      print("Data will be saved as is.")
      taf.save_data(data, trade_type, save_dir, commodity, cleaned=False)
  \<close>

  The cell acts through the helpers only, so it is embedded as the list of what it
  does, in order: the lines it prints and the helper calls it makes, each with its
  arguments. What \<^verbatim>\<open>clean_data\<close> returns is a parameter; \<open>save_dir\<close> is what
  \<^verbatim>\<open>save_directory\<close> returned and \<open>cleaned\<close> the answer of \<^verbatim>\<open>prompt_yes_no\<close>.
\<close>

datatype ('t, 'tt, 'd, 'l) event =
    Print string
  | SaveDirectory
  | PromptYesNo string
  | CleanData 't 'tt
  | SaveData 't 'tt 'd 'l bool

definition clean_question :: string where
  "clean_question = ''Would you like to clean the data before saving to a csv file? (Yes/No): ''"

definition saved_as_is_msg :: string where
  "saved_as_is_msg = ''Data will be saved as is.''"

definition cell_17 ::
  "('t \<Rightarrow> 'tt \<Rightarrow> 't) \<Rightarrow> 't \<Rightarrow> 'tt \<Rightarrow> 'd \<Rightarrow> 'l \<Rightarrow> bool \<Rightarrow> ('t, 'tt, 'd, 'l) event list" where
  "cell_17 clean_data data trade_type save_dir commodity cleaned =
     [SaveDirectory, PromptYesNo clean_question] @
     (if cleaned then
        [CleanData data trade_type,
         SaveData (clean_data data trade_type) trade_type save_dir commodity True]
      else
        [Print saved_as_is_msg,
         SaveData data trade_type save_dir commodity False])"

fun save_calls :: "('t, 'tt, 'd, 'l) event list \<Rightarrow> ('t \<times> 'tt \<times> 'd \<times> 'l \<times> bool) list" where
  "save_calls [] = []"
| "save_calls (SaveData t tt d l c # es) = (t, tt, d, l, c) # save_calls es"
| "save_calls (e # es) = save_calls es"

fun clean_calls :: "('t, 'tt, 'd, 'l) event list \<Rightarrow> ('t \<times> 'tt) list" where
  "clean_calls [] = []"
| "clean_calls (CleanData t tt # es) = (t, tt) # clean_calls es"
| "clean_calls (e # es) = clean_calls es"

section \<open>The helper module, modelled from the specification\<close>

text \<open>
  The functions of \<^verbatim>\<open>trade_api_functions\<close> are not among the sources. Where a property
  is decided inside one of them, the function is modelled from the specification's
  description of the component it implements.
\<close>

subsection \<open>The periods of a retrieval\<close>

text \<open>
  Modelled from the spec: \<^verbatim>\<open>make_call\<close>, the Retrieval Orchestrator, is missing. The
  specification has it issue one sub-query per yearly period and never a multi-year span;
  its scenario "years 2010-2011 (inclusive) produce 2 periods" is the run in which cell 11
  stores \<open>2011 + 1\<close> as the end bound. The periods of a call are therefore those of
  Python's \<^verbatim>\<open>range(start_year, end_year)\<close>: the end bound is not among them.
\<close>

definition make_call_periods :: "int \<Rightarrow> int \<Rightarrow> int list" where
  "make_call_periods first stop = [first..stop - 1]"

text \<open>
  The periods a session retrieves under this reading of \<^verbatim>\<open>make_call\<close>.
\<close>

definition retrieval_periods :: "('y \<Rightarrow> int option) \<Rightarrow> 'y list \<Rightarrow> int list option" where
  "retrieval_periods to_int answers = session_periods make_call_periods to_int answers"

subsection \<open>The Data Cleaner\<close>

text \<open>
  Modelled from the spec: \<^verbatim>\<open>clean_data\<close> is missing. Section 4.6 of the specification:
  \<open>clean(table, tradeType)\<close> applies the trade type's rules: it drops the rows with a null
  or placeholder value in a key measure column, coerces the numeric columns to numbers
  (a value that is not numeric is invalid, its row is dropped and the drops are counted),
  and drops exact full-row duplicates. A row is the record the API returned, column name
  to value, in column order. Which columns are key measures and which are numeric, what
  counts as a placeholder and which texts read as numbers belong to the rules.
\<close>

datatype 'n cell = Null | Text string | Num 'n

record ('tt, 'n) cleaning_rules =
  key_measures :: "'tt \<Rightarrow> string list"
  numeric_columns :: "'tt \<Rightarrow> string list"
  placeholder :: "string \<Rightarrow> bool"
  to_number :: "string \<Rightarrow> 'n option"

fun has_value :: "(string \<Rightarrow> bool) \<Rightarrow> 'n cell \<Rightarrow> bool" where
  "has_value ph Null = False"
| "has_value ph (Text s) = (\<not> ph s)"
| "has_value ph (Num n) = True"

definition has_key_measures ::
  "(string \<Rightarrow> bool) \<Rightarrow> string list \<Rightarrow> (string \<times> 'n cell) list \<Rightarrow> bool" where
  "has_key_measures ph keys r =
     list_all (\<lambda>c. case map_of r c of None \<Rightarrow> False | Some v \<Rightarrow> has_value ph v) keys"

fun coerce_cell :: "(string \<Rightarrow> 'n option) \<Rightarrow> 'n cell \<Rightarrow> 'n cell option" where
  "coerce_cell num Null = None"
| "coerce_cell num (Text s) = map_option Num (num s)"
| "coerce_cell num (Num n) = Some (Num n)"

fun coerce_row ::
  "(string \<Rightarrow> 'n option) \<Rightarrow> string list \<Rightarrow> (string \<times> 'n cell) list
     \<Rightarrow> (string \<times> 'n cell) list option" where
  "coerce_row num cols [] = Some []"
| "coerce_row num cols ((c, v) # r) =
     (case (if c \<in> set cols then coerce_cell num v else Some v) of
        None \<Rightarrow> None
      | Some v' \<Rightarrow>
         (case coerce_row num cols r of
            None \<Rightarrow> None
          | Some r' \<Rightarrow> Some ((c, v') # r')))"

text \<open>Dropping duplicates keeps the first of equal rows, in the table's order.\<close>

fun drop_duplicates :: "'a list \<Rightarrow> 'a list" where
  "drop_duplicates [] = []"
| "drop_duplicates (x # xs) = x # filter (\<lambda>y. y \<noteq> x) (drop_duplicates xs)"

text \<open>
  Modelled from the spec: \<open>clean(table, tradeType)\<close> of section 4.6, the three steps in the
  order the specification lists them, and the count of invalid rows it reports.
\<close>

definition clean ::
  "('tt, 'n) cleaning_rules \<Rightarrow> (string \<times> 'n cell) list list \<Rightarrow> 'tt
     \<Rightarrow> (string \<times> 'n cell) list list" where
  "clean rules table trade_type =
     drop_duplicates
       (List.map_filter (coerce_row (to_number rules) (numeric_columns rules trade_type))
          (filter (has_key_measures (placeholder rules) (key_measures rules trade_type)) table))"

definition invalid_count ::
  "('tt, 'n) cleaning_rules \<Rightarrow> (string \<times> 'n cell) list list \<Rightarrow> 'tt \<Rightarrow> nat" where
  "invalid_count rules table trade_type =
     length (filter (\<lambda>r. coerce_row (to_number rules) (numeric_columns rules trade_type) r = None)
       (filter (has_key_measures (placeholder rules) (key_measures rules trade_type)) table))"

text \<open>
  A rule set to run the cleaner on: one key measure, which is also the numeric column,
  the dash as the placeholder, and two texts that read as numbers.
\<close>

definition port_rules :: "(string, int) cleaning_rules" where
  "port_rules =
     \<lparr>key_measures = (\<lambda>tt. [''GEN_VAL_MO'']),
      numeric_columns = (\<lambda>tt. [''GEN_VAL_MO'']),
      placeholder = (\<lambda>s. s = ''-''),
      to_number = (\<lambda>s. if s = ''7'' then Some 7 else if s = ''12'' then Some 12 else None)\<rparr>"

definition port_table :: "(string \<times> int cell) list list" where
  "port_table =
     [[(''PORT'', Text ''1303''), (''GEN_VAL_MO'', Text ''7'')],
      [(''PORT'', Text ''1303''), (''GEN_VAL_MO'', Text ''-'')],
      [(''PORT'', Text ''1303''), (''GEN_VAL_MO'', Num 7)],
      [(''PORT'', Text ''1303''), (''GEN_VAL_MO'', Text ''n/a'')],
      [(''PORT'', Text ''1304''), (''GEN_VAL_MO'', Null)],
      [(''PORT'', Text ''1304''), (''GEN_VAL_MO'', Text ''12'')]]"

section \<open>Properties of the year prompts\<close>

lemma reprompt_loop_accept:
  assumes "py_int to_int sy = Inr s" and "py_int to_int ey = Inr e" and "s \<le> e"
  shows "reprompt_loop to_int sy ey out answers =
           (out, Inr (\<lparr>start_year = sy, end_year = ey\<rparr>, answers))"
  using assms by (simp add: reprompt_loop.simps)

lemma reprompt_loop_again:
  assumes "py_int to_int sy = Inr s" and "py_int to_int ey = Inr e" and "e < s"
  shows "reprompt_loop to_int sy ey out (a # b # rest) =
           reprompt_loop to_int (Prompted a) (Prompted b) (out @ [reprompt_msg]) rest"
  using assms by (subst reprompt_loop.simps) simp




lemma msgs_differ: "reprompt_msg \<noteq> time_period_msg"
  by (simp add: reprompt_msg_def time_period_msg_def)

text \<open>
  Claim C1: for every pair of entered years with startYear > endYear the validation fails
  with RangeInverted (the driver re-prompts), and no API call is issued before the years
  are entered again. The driver breaks this for a start year one above the end year: with
  2011 and 2010 entered it stores 2010 + 1 as \<open>end_year\<close>, its guard \<open>2011 > 2011\<close> is false,
  the line "The start year cannot be greater than the end year" is not printed, and
  \<open>make_call\<close> is called with the bounds 2011 and 2011.
\<close>

theorem inverted_by_one_is_accepted:
  "\<not> reprompted Some [2011, 2010 :: int] \<and>
   cell_11 Some [2011, 2010 :: int] =
     ([time_period_msg], Inr (\<lparr>start_year = PyInt 2011, end_year = PyInt 2011\<rparr>, [])) \<and>
   make_call_bounds Some [2011, 2010 :: int] = Some (PyInt 2011, PyInt 2011)"
  by (simp add: reprompted_def make_call_bounds_def cell_11_def reprompt_loop.simps py_int_def
      msgs_differ)




text \<open>
  Claim C10: the first-entry path and the re-prompt path are not equivalent. For the same
  entered pair (start year at most end year), entered at the first prompts the end bound
  of \<open>make_call\<close> is the integer end year plus one; entered after a rejected first pair,
  both bounds are the prompt's values as they came back, not converted, and the end
  bound's integer value is the end year itself.
\<close>

theorem reprompt_path_differs:
  assumes "to_int a = Some s" and "to_int b = Some e" and "s \<le> e"
    and "to_int a0 = Some s0" and "to_int b0 = Some e0" and "e0 + 1 < s0"
  shows "make_call_bounds to_int (a # b # rest) = Some (PyInt s, PyInt (e + 1)) \<and>
         make_call_bounds to_int (a0 # b0 # a # b # rest) = Some (Prompted a, Prompted b) \<and>
         py_int to_int (Prompted b) = Inr e"
proof -
  have first: "cell_11 to_int (a # b # rest) =
      ([time_period_msg], Inr (\<lparr>start_year = PyInt s, end_year = PyInt (e + 1)\<rparr>, rest))"
    using assms(1-3) by (simp add: cell_11_def reprompt_loop_accept py_int_def)
  have pa: "py_int to_int (Prompted a) = Inr s" and pb: "py_int to_int (Prompted b) = Inr e"
    using assms(1,2) by (simp_all add: py_int_def)
  have "cell_11 to_int (a0 # b0 # a # b # rest) =
      reprompt_loop to_int (PyInt s0) (PyInt (e0 + 1)) [time_period_msg] (a # b # rest)"
    using assms(4,5) by (simp add: cell_11_def)
  also have "\<dots> = reprompt_loop to_int (Prompted a) (Prompted b)
                     ([time_period_msg] @ [reprompt_msg]) rest"
    using assms(6) by (simp add: reprompt_loop_again py_int_def)
  also have "\<dots> = ([time_period_msg] @ [reprompt_msg],
                    Inr (\<lparr>start_year = Prompted a, end_year = Prompted b\<rparr>, rest))"
    using reprompt_loop_accept [OF pa pb assms(3)] by simp
  finally show ?thesis
    using first pb by (simp add: make_call_bounds_def)
qed

theorem reprompt_path_differs_witness:
  "make_call_bounds Some [2013, 2014 :: int] = Some (PyInt 2013, PyInt 2015) \<and>
   make_call_bounds Some [2019, 2012, 2013, 2014 :: int] = Some (Prompted 2013, Prompted 2014) \<and>
   py_int Some (Prompted (2014 :: int)) = Inr 2014"
  using reprompt_path_differs [of Some 2013 2013 2014 2014 2019 2019 2012 2012 "[]"]
  by simp

text \<open>
  On the first-entry path an accepted pair with start year at most end year is retrieved
  as the closed range of its years.
\<close>

lemma first_entry_periods:
  assumes "to_int a = Some s" and "to_int b = Some e" and "s \<le> e"
  shows "retrieval_periods to_int (a # b # rest) = Some [s..e]"
  using assms
  by (simp add: retrieval_periods_def session_periods_def make_call_bounds_def cell_11_def
      reprompt_loop.simps py_int_def make_call_periods_def)

text \<open>
  Claim C2: for every accepted pair with startYear at most endYear the retrieval covers
  exactly the endYear - startYear + 1 yearly periods from startYear to endYear, ascending.
  The driver breaks this on the re-prompt path, where the end year is stored without the
  \<open>+ 1\<close> of the first-entry path: with 2020 and 2010 entered first (rejected) and then
  2010 and 2011 (accepted), \<open>make_call\<close> gets the bounds 2010 and 2011 and covers the one
  period 2010, where the same pair entered at the first prompts is retrieved as 2010, 2011.
  Whatever the retrieval enumerates for the bounds 2010 and 2011, it cannot be right both
  for that session and for the session that enters 2010 and 2010 at the first prompts.
\<close>

theorem reprompted_range_loses_last_year:
  "make_call_bounds Some [2020, 2010, 2010, 2011 :: int] = Some (Prompted 2010, Prompted 2011) \<and>
   make_call_bounds Some [2010, 2011 :: int] = Some (PyInt 2010, PyInt 2012) \<and>
   retrieval_periods Some [2020, 2010, 2010, 2011 :: int] = Some [2010] \<and>
   retrieval_periods Some [2010, 2011 :: int] = Some [2010, 2011] \<and>
   (\<forall>periods.
      \<not> (session_periods periods Some [2010, 2010 :: int] = Some [2010] \<and>
         session_periods periods Some [2020, 2010, 2010, 2011 :: int] = Some [2010, 2011]))"
  by (simp add: retrieval_periods_def session_periods_def make_call_bounds_def cell_11_def
      reprompt_loop.simps py_int_def make_call_periods_def upto.simps)

section \<open>Properties of the parameters and the save\<close>

text \<open>
  Claim C6: when a non-empty API key is supplied, the parameter mapping handed to the
  retrieval holds that key under the field \<open>key\<close>, next to every base parameter of the
  trade type (all other fields are those of \<open>determine_base_params\<close>, unchanged); when no
  key is supplied (\<open>None\<close> or the empty string), no entry is added.
\<close>

theorem key_merged_into_parameters:
  "(k \<noteq> [] \<longrightarrow>
      cell_6 determine_base_params trade_type (Some k) ''key'' = Some k \<and>
      (\<forall>field. field \<noteq> ''key'' \<longrightarrow>
         cell_6 determine_base_params trade_type (Some k) field =
           determine_base_params trade_type field) \<and>
      dom (cell_6 determine_base_params trade_type (Some k)) =
        insert ''key'' (dom (determine_base_params trade_type))) \<and>
   cell_6 determine_base_params trade_type None = determine_base_params trade_type \<and>
   cell_6 determine_base_params trade_type (Some []) = determine_base_params trade_type"
proof -
  have with_key: "cell_6 determine_base_params trade_type (Some k) =
      (determine_base_params trade_type)(''key'' \<mapsto> k)" if "k \<noteq> []"
    using that by (simp add: cell_6_def)
  have no_key: "cell_6 determine_base_params trade_type None = determine_base_params trade_type"
    by (simp add: cell_6_def)
  have empty_key:
    "cell_6 determine_base_params trade_type (Some []) = determine_base_params trade_type"
    by (simp add: cell_6_def)
  show ?thesis
    using with_key no_key empty_key by simp
qed

theorem key_merged_into_parameters_witness:
  "cell_6 (\<lambda>tt. [''get'' \<mapsto> ''PORT,GEN_VAL_MO'']) ''imp_port'' (Some ''k40'') ''key'' = Some ''k40'' \<and>
   cell_6 (\<lambda>tt. [''get'' \<mapsto> ''PORT,GEN_VAL_MO'']) ''imp_port'' (Some ''k40'') ''get''
     = Some ''PORT,GEN_VAL_MO'' \<and>
   cell_6 (\<lambda>tt. [''get'' \<mapsto> ''PORT,GEN_VAL_MO'']) ''imp_port'' None ''key'' = None"
  using key_merged_into_parameters
    [of "''k40''" "\<lambda>tt. [''get'' \<mapsto> ''PORT,GEN_VAL_MO'']" "''imp_port''"]
  by simp

text \<open>
  Claim C7: cleaning is optional. When the user declines, the table handed to \<open>save_data\<close>
  is the retrieved table itself, with \<open>cleaned=False\<close>, and \<open>clean_data\<close> is not called;
  when the user accepts, \<open>clean_data\<close> is called exactly once, on the retrieved table, and
  its result is saved with \<open>cleaned=True\<close>; either way exactly one \<open>save_data\<close> call is
  made.
\<close>

theorem clean_optional_one_export:
  "save_calls (cell_17 clean_data data trade_type save_dir commodity False)
     = [(data, trade_type, save_dir, commodity, False)] \<and>
   clean_calls (cell_17 clean_data data trade_type save_dir commodity False) = [] \<and>
   save_calls (cell_17 clean_data data trade_type save_dir commodity True)
     = [(clean_data data trade_type, trade_type, save_dir, commodity, True)] \<and>
   clean_calls (cell_17 clean_data data trade_type save_dir commodity True)
     = [(data, trade_type)] \<and>
   length (save_calls (cell_17 clean_data data trade_type save_dir commodity cleaned)) = 1"
proof -
  have declined: "cell_17 clean_data data trade_type save_dir commodity False =
      [SaveDirectory, PromptYesNo clean_question, Print saved_as_is_msg,
       SaveData data trade_type save_dir commodity False]"
    by (simp add: cell_17_def)
  have accepted: "cell_17 clean_data data trade_type save_dir commodity True =
      [SaveDirectory, PromptYesNo clean_question, CleanData data trade_type,
       SaveData (clean_data data trade_type) trade_type save_dir commodity True]"
    by (simp add: cell_17_def)
  have one: "length (save_calls (cell_17 clean_data data trade_type save_dir commodity cleaned)) = 1"
    by (cases cleaned) (simp_all add: declined accepted)
  show ?thesis
    using one by (simp add: declined accepted)
qed

section \<open>Properties of the modelled helpers\<close>

subsection \<open>Data Cleaner\<close>

lemma set_drop_duplicates: "set (drop_duplicates xs) = set xs"
  by (induction xs) auto

lemma distinct_drop_duplicates: "distinct (drop_duplicates xs)"
  by (induction xs) auto

lemma drop_duplicates_distinct: "distinct xs \<Longrightarrow> drop_duplicates xs = xs"
  by (induction xs) (auto simp: filter_id_conv)

lemma coerce_cell_stable: "coerce_cell num v = Some v' \<Longrightarrow> coerce_cell num v' = Some v'"
  by (cases v) auto

lemma coerce_cell_has_value: "coerce_cell num v = Some v' \<Longrightarrow> has_value ph v'"
  by (cases v) auto

text \<open>A coerced row coerces to itself.\<close>

lemma coerce_row_stable:
  "coerce_row num cols r = Some r' \<Longrightarrow> coerce_row num cols r' = Some r'"
proof (induction r arbitrary: r')
  case Nil
  then show ?case by simp
next
  case (Cons x r)
  obtain c v where x: "x = (c, v)" by (cases x)
  from Cons.prems obtain v' r1
    where v': "(if c \<in> set cols then coerce_cell num v else Some v) = Some v'"
      and r1: "coerce_row num cols r = Some r1" and r': "r' = (c, v') # r1"
    by (auto simp: x split: option.splits)
  have "(if c \<in> set cols then coerce_cell num v' else Some v') = Some v'"
    using v' by (auto dest: coerce_cell_stable split: if_splits)
  then show ?case
    using Cons.IH [OF r1] by (simp add: r')
qed

text \<open>Coercion keeps the columns: a column's value is coerced or kept.\<close>

lemma coerce_row_lookup:
  "coerce_row num cols r = Some r' \<Longrightarrow> map_of r c = Some v \<Longrightarrow>
     \<exists>v'. map_of r' c = Some v' \<and> (if c \<in> set cols then coerce_cell num v = Some v' else v' = v)"
proof (induction r arbitrary: r')
  case Nil
  then show ?case by simp
next
  case (Cons x r)
  obtain c0 v0 where x: "x = (c0, v0)" by (cases x)
  from Cons.prems(1) obtain v0' r1
    where v0': "(if c0 \<in> set cols then coerce_cell num v0 else Some v0) = Some v0'"
      and r1: "coerce_row num cols r = Some r1" and r': "r' = (c0, v0') # r1"
    by (auto simp: x split: option.splits)
  show ?case
  proof (cases "c = c0")
    case True
    with Cons.prems(2) have "v = v0" by (simp add: x)
    with True v0' show ?thesis by (auto simp: r' split: if_splits)
  next
    case False
    with Cons.prems(2) have "map_of r c = Some v" by (simp add: x)
    from Cons.IH [OF r1 this] False show ?thesis by (simp add: r')
  qed
qed

lemma has_key_measures_coerced:
  assumes "has_key_measures ph keys r" and "coerce_row num cols r = Some r'"
  shows "has_key_measures ph keys r'"
  unfolding has_key_measures_def list_all_iff
proof
  fix c assume "c \<in> set keys"
  with assms(1) obtain v where v: "map_of r c = Some v" and hv: "has_value ph v"
    by (auto simp: has_key_measures_def list_all_iff split: option.splits)
  from coerce_row_lookup [OF assms(2) v] obtain v'
    where v': "map_of r' c = Some v'"
      and rel: "if c \<in> set cols then coerce_cell num v = Some v' else v' = v"
    by blast
  have "has_value ph v'"
    using rel hv by (auto dest: coerce_cell_has_value split: if_splits)
  with v' show "case map_of r' c of None \<Rightarrow> False | Some v \<Rightarrow> has_value ph v" by simp
qed

lemma map_filter_fixed: "(\<forall>x \<in> set xs. f x = Some x) \<Longrightarrow> List.map_filter f xs = xs"
  by (induction xs) auto

lemma in_set_map_filter:
  "y \<in> set (List.map_filter f xs) \<longleftrightarrow> (\<exists>x \<in> set xs. f x = Some y)"
  by (induction xs) (auto split: option.splits)

text \<open>
  Claim C5: the Data Cleaner is idempotent: for every table and trade type,
  \<open>clean (clean x) = clean x\<close>. The second pass also finds no invalid row to count.
\<close>

theorem clean_idempotent:
  fixes rules :: "('tt, 'n) cleaning_rules"
  shows "clean rules (clean rules table trade_type) trade_type = clean rules table trade_type \<and>
         invalid_count rules (clean rules table trade_type) trade_type = 0"
proof -
  define keep :: "(string \<times> 'n cell) list \<Rightarrow> bool"
    where "keep = has_key_measures (placeholder rules) (key_measures rules trade_type)"
  define co where "co = coerce_row (to_number rules) (numeric_columns rules trade_type)"
  define out where "out = clean rules table trade_type"
  have out: "out = drop_duplicates (List.map_filter co (filter keep table))"
    by (simp add: out_def clean_def keep_def co_def)
  have rows: "keep r \<and> co r = Some r" if "r \<in> set out" for r
  proof -
    from that obtain r0 where "keep r0" and "co r0 = Some r"
      by (auto simp: out set_drop_duplicates in_set_map_filter)
    then show ?thesis
      unfolding keep_def co_def
      using has_key_measures_coerced coerce_row_stable by blast
  qed
  have "filter keep out = out"
    using rows by simp
  moreover have "List.map_filter co out = out"
    using rows by (simp add: map_filter_fixed)
  moreover have "drop_duplicates out = out"
    by (simp add: out distinct_drop_duplicates drop_duplicates_distinct)
  ultimately have "drop_duplicates (List.map_filter co (filter keep out)) = out"
    by simp
  then have again: "clean rules out trade_type = out"
    by (simp add: clean_def keep_def co_def)
  have "filter (\<lambda>r. co r = None) (filter keep out) = []"
    using rows by (auto simp: filter_empty_conv)
  then have "invalid_count rules out trade_type = 0"
    by (simp add: invalid_count_def keep_def co_def)
  with again show ?thesis
    by (simp add: out_def)
qed

theorem clean_idempotent_witness:
  "clean port_rules port_table ''imp_port'' =
     [[(''PORT'', Text ''1303''), (''GEN_VAL_MO'', Num 7)],
      [(''PORT'', Text ''1304''), (''GEN_VAL_MO'', Num 12)]] \<and>
   invalid_count port_rules port_table ''imp_port'' = 1 \<and>
   clean port_rules (clean port_rules port_table ''imp_port'') ''imp_port'' =
     [[(''PORT'', Text ''1303''), (''GEN_VAL_MO'', Num 7)],
      [(''PORT'', Text ''1304''), (''GEN_VAL_MO'', Num 12)]]"
proof -
  have run: "clean port_rules port_table ''imp_port'' =
     [[(''PORT'', Text ''1303''), (''GEN_VAL_MO'', Num 7)],
      [(''PORT'', Text ''1304''), (''GEN_VAL_MO'', Num 12)]]"
    by (simp add: clean_def port_rules_def port_table_def has_key_measures_def)
  have count: "invalid_count port_rules port_table ''imp_port'' = 1"
    by (simp add: invalid_count_def port_rules_def port_table_def has_key_measures_def)
  show ?thesis
    using clean_idempotent [of port_rules port_table "''imp_port''"] run count by simp
qed


end
